theory Spec2Isabelle
  imports Complex_Main "HOL-Library.Sublist"
begin

section \<open>JavaScript numbers\<close>

text \<open>
  A number of the language is a double. \<open>Whole n\<close> is the double with the integer value
  \<open>n\<close>, \<open>Fraction q\<close> a finite double whose value \<open>q\<close> is not an integer; \<open>PosInf\<close>,
  \<open>NegInf\<close> and \<open>NaN\<close> are the three other values. The two zeros are one value here,
  \<open>Whole 0\<close>: the program does nothing that tells them apart (it compares, prints and
  increments numbers, and reads them as array indices).
\<close>

datatype number = Whole int | Fraction rat | PosInf | NegInf | NaN

subsection \<open>Rounding to a double\<close>

fun bit_length :: "nat \<Rightarrow> nat" where
  "bit_length n = (if n = 0 then 0 else Suc (bit_length (n div 2)))"

declare bit_length.simps [simp del]

text \<open>
  The double next to an integer, ties to the even significand; beyond the largest double
  it is an infinity. An integer of at most 53 bits is a double.
\<close>

definition int_to_double :: "int \<Rightarrow> number" where
  "int_to_double n =
     (let a = nat \<bar>n\<bar>; b = bit_length a in
      if b \<le> 53 then Whole n
      else
        (let e = b - 53; q = a div 2 ^ e; r = a mod 2 ^ e; half = 2 ^ (e - 1);
             m = (if half < r \<or> (r = half \<and> odd q) then q + 1 else q);
             v = m * 2 ^ e
         in if 2 ^ 1024 \<le> v then (if n < 0 then NegInf else PosInf)
            else Whole (if n < 0 then - int v else int v)))"

definition pow2 :: "int \<Rightarrow> rat" where
  "pow2 e = (if 0 \<le> e then 2 ^ nat e else 1 / 2 ^ nat (- e))"

definition pow10 :: "int \<Rightarrow> rat" where
  "pow10 e = (if 0 \<le> e then 10 ^ nat e else 1 / 10 ^ nat (- e))"

text \<open>\<open>floor_log2 a\<close> is the \<open>l\<close> with \<open>2^l \<le> a < 2^(l+1)\<close>, for a positive \<open>a\<close>.\<close>

definition floor_log2 :: "rat \<Rightarrow> int" where
  "floor_log2 a =
     (let (p, d) = quotient_of a;
          l = int (bit_length (nat p)) - int (bit_length (nat d))
      in if pow2 l \<le> a then l else l - 1)"

definition round_half_even :: "rat \<Rightarrow> int" where
  "round_half_even r =
     (let f = \<lfloor>r\<rfloor>; t = r - of_int f in
      if t < 1 / 2 then f else if 1 / 2 < t then f + 1 else if even f then f else f + 1)"

definition number_of_rat :: "rat \<Rightarrow> number" where
  "number_of_rat x = (if of_int \<lfloor>x\<rfloor> = x then Whole \<lfloor>x\<rfloor> else Fraction x)"

text \<open>
  The double next to a rational: a significand of 53 bits, or fewer at the smallest
  exponent \<open>-1074\<close>, where the subnormal numbers are.
\<close>

definition rat_to_double :: "rat \<Rightarrow> number" where
  "rat_to_double x =
     (if x = 0 then Whole 0
      else
        (let a = \<bar>x\<bar>; e = max (floor_log2 a - 52) (- 1074);
             m = round_half_even (a / pow2 e); v = of_int m * pow2 e
         in if 2 ^ 1024 \<le> v then (if x < 0 then NegInf else PosInf)
            else number_of_rat (if x < 0 then - v else v)))"

fun negate :: "number \<Rightarrow> number" where
  "negate (Whole n) = Whole (- n)"
| "negate (Fraction q) = Fraction (- q)"
| "negate PosInf = NegInf"
| "negate NegInf = PosInf"
| "negate NaN = NaN"

subsection \<open>Numbers as strings\<close>

fun digits :: "nat \<Rightarrow> string" where
  "digits n = (if n < 10 then [''0123456789'' ! n]
               else digits (n div 10) @ [''0123456789'' ! (n mod 10)])"

declare digits.simps [simp del]

text \<open>\<open>floor_log10 x\<close> is the \<open>l\<close> with \<open>10^l \<le> x < 10^(l+1)\<close>, for a positive \<open>x\<close>.\<close>

definition floor_log10 :: "rat \<Rightarrow> int" where
  "floor_log10 x =
     (if 1 \<le> x then int (length (digits (nat \<lfloor>x\<rfloor>))) - 1
      else - int (length (digits (nat (\<lceil>1 / x\<rceil> - 1)))))"

text \<open>
  \<open>Number::toString\<close> writes the shortest decimal that reads back as the same double:
  \<open>shortest x k\<close> looks for integers \<open>(s, k', n)\<close> with \<open>s\<close> of \<open>k'\<close> digits,
  \<open>k \<le> k'\<close>, such that \<open>s * 10^(n - k')\<close> rounds to \<open>x\<close>, with \<open>k'\<close> as small as possible
  and then \<open>s * 10^(n - k')\<close> as close to \<open>x\<close> as possible; 17 digits always suffice.
\<close>

function shortest :: "rat \<Rightarrow> nat \<Rightarrow> int \<times> nat \<times> int" where
  "shortest x k =
     (let n = floor_log10 x + 1;
          lo = \<lfloor>x / pow10 (n - int k)\<rfloor>;
          hi = (if lo + 1 = 10 ^ k then 10 ^ (k - 1) else lo + 1);
          hn = (if lo + 1 = 10 ^ k then n + 1 else n);
          lv = of_int lo * pow10 (n - int k);
          hv = of_int hi * pow10 (hn - int k);
          lok = (rat_to_double lv = rat_to_double x);
          hok = (rat_to_double hv = rat_to_double x)
      in if lok \<and> hok then
           (if x - lv < hv - x \<or> (x - lv = hv - x \<and> even lo) then (lo, k, n) else (hi, k, hn))
         else if lok then (lo, k, n)
         else if hok then (hi, k, hn)
         else if 17 \<le> k then (lo, k, n)
         else shortest x (Suc k))"
  by pat_completeness auto
termination
  by (relation "measure (\<lambda>(x, k). 17 - k)") auto

declare shortest.simps [simp del]

text \<open>
  The notation of \<open>Number::toString\<close> for the digits \<open>s\<close>, their number \<open>k\<close> and the
  position \<open>n\<close> of the decimal point: plain digits up to \<open>10^21\<close>, a leading \<open>0.\<close> down to
  \<open>10^-6\<close>, an exponent otherwise.
\<close>

definition format_decimal :: "int \<times> nat \<times> int \<Rightarrow> string" where
  "format_decimal skn =
     (let (s, k, n) = skn; ds = digits (nat s) in
      if int k \<le> n \<and> n \<le> 21 then ds @ replicate (nat (n - int k)) (CHR ''0'')
      else if 0 < n \<and> n \<le> 21 then take (nat n) ds @ ''.'' @ drop (nat n) ds
      else if - 6 < n \<and> n \<le> 0 then ''0.'' @ replicate (nat (- n)) (CHR ''0'') @ ds
      else
        (let e = n - 1;
             ex = (if e < 0 then ''-'' else ''+'') @ digits (nat \<bar>e\<bar>)
         in if k = 1 then ds @ ''e'' @ ex
            else take 1 ds @ ''.'' @ drop 1 ds @ ''e'' @ ex))"

text \<open>
  \<open>`${n}`\<close> and \<open>String(n)\<close> on a number. An integer below \<open>2^53\<close> is its own shortest
  decimal and is written with all its digits.
\<close>

fun NumberToString :: "number \<Rightarrow> string" where
  "NumberToString NaN = ''NaN''"
| "NumberToString PosInf = ''Infinity''"
| "NumberToString NegInf = ''-Infinity''"
| "NumberToString (Whole n) =
     (if n < 0 then ''-'' else []) @
     (if \<bar>n\<bar> < 2 ^ 53 then digits (nat \<bar>n\<bar>)
      else format_decimal (shortest (of_int \<bar>n\<bar>) 1))"
| "NumberToString (Fraction q) =
     (if q < 0 then ''-'' else []) @ format_decimal (shortest \<bar>q\<bar> 1)"

subsection \<open>Strings as numbers\<close>

text \<open>The white space of the language among the code units below 256.\<close>

definition isWhiteSpace :: "char \<Rightarrow> bool" where
  "isWhiteSpace c = ((of_char c :: nat) \<in> {9, 10, 11, 12, 13, 32, 160})"

definition isDigit :: "char \<Rightarrow> bool" where
  "isDigit c = (48 \<le> (of_char c :: nat) \<and> (of_char c :: nat) \<le> 57)"

definition trim :: "string \<Rightarrow> string" where
  "trim s = rev (dropWhile isWhiteSpace (rev (dropWhile isWhiteSpace s)))"

definition digit_value :: "char \<Rightarrow> nat option" where
  "digit_value c =
     (let n = (of_char c :: nat) in
      if 48 \<le> n \<and> n \<le> 57 then Some (n - 48)
      else if 97 \<le> n \<and> n \<le> 122 then Some (n - 87)
      else if 65 \<le> n \<and> n \<le> 90 then Some (n - 55)
      else None)"

definition radix_digit :: "nat \<Rightarrow> char \<Rightarrow> bool" where
  "radix_digit radix c = (case digit_value c of None \<Rightarrow> False | Some d \<Rightarrow> d < radix)"

definition radix_value :: "nat \<Rightarrow> string \<Rightarrow> nat" where
  "radix_value radix ds =
     foldl (\<lambda>acc c. radix * acc + (case digit_value c of None \<Rightarrow> 0 | Some d \<Rightarrow> d)) 0 ds"

text \<open>The double next to \<open>m * 10^e\<close>.\<close>

definition scaled :: "nat \<Rightarrow> int \<Rightarrow> number" where
  "scaled m e =
     (if 0 \<le> e then int_to_double (int m * 10 ^ nat e)
      else rat_to_double (of_nat m / 10 ^ nat (- e)))"

text \<open>
  \<open>StringToNumber\<close>, the conversion behind \<open>Number(s)\<close>. After trimming the white space:
  the empty string is 0; \<open>0x\<close>, \<open>0o\<close> and \<open>0b\<close> start an unsigned integer of radix 16, 8
  and 2; otherwise an optional sign is followed by \<open>Infinity\<close> or by a decimal literal,
  digits with an optional fraction and an optional exponent. A string that is none of these
  is \<open>NaN\<close>. The value is rounded to a double.
\<close>

definition exponent_part :: "string \<Rightarrow> int option" where
  "exponent_part r =
     (if r = [] then Some 0
      else if hd r = CHR ''e'' \<or> hd r = CHR ''E'' then
        (let r1 = tl r;
             negative = (r1 \<noteq> [] \<and> hd r1 = CHR ''-'');
             ds = (if r1 \<noteq> [] \<and> (hd r1 = CHR ''-'' \<or> hd r1 = CHR ''+'') then tl r1 else r1)
         in if ds \<noteq> [] \<and> list_all isDigit ds
            then Some (if negative then - int (radix_value 10 ds) else int (radix_value 10 ds))
            else None)
      else None)"

definition unsigned_decimal :: "string \<Rightarrow> number option" where
  "unsigned_decimal u =
     (if u = ''Infinity'' then Some PosInf
      else
        (let ip = takeWhile isDigit u; r1 = dropWhile isDigit u;
             dot = (r1 \<noteq> [] \<and> hd r1 = CHR ''.'');
             fp = (if dot then takeWhile isDigit (tl r1) else []);
             r2 = (if dot then dropWhile isDigit (tl r1) else r1)
         in if ip = [] \<and> fp = [] then None
            else
              (case exponent_part r2 of
                 None \<Rightarrow> None
               | Some e \<Rightarrow> Some (scaled (radix_value 10 (ip @ fp)) (e - int (length fp))))))"

definition radix_prefix :: "string \<Rightarrow> nat option" where
  "radix_prefix t =
     (if take 2 t = ''0x'' \<or> take 2 t = ''0X'' then Some 16
      else if take 2 t = ''0o'' \<or> take 2 t = ''0O'' then Some 8
      else if take 2 t = ''0b'' \<or> take 2 t = ''0B'' then Some 2
      else None)"

definition StringToNumber :: "string \<Rightarrow> number" where
  "StringToNumber s =
     (let t = trim s in
      if t = [] then Whole 0
      else
        (case radix_prefix t of
           Some radix \<Rightarrow>
             (let ds = drop 2 t in
              if ds \<noteq> [] \<and> list_all (radix_digit radix) ds
              then int_to_double (int (radix_value radix ds)) else NaN)
         | None \<Rightarrow>
             (let negative = (hd t = CHR ''-'');
                  u = (if hd t = CHR ''-'' \<or> hd t = CHR ''+'' then tl t else t)
              in case unsigned_decimal u of
                   None \<Rightarrow> NaN
                 | Some n \<Rightarrow> if negative then negate n else n)))"

text \<open>
  \<open>parseInt(s)\<close> without a radix: leading white space is skipped, a sign is read, the
  prefix \<open>0x\<close> selects radix 16, and the longest run of digits is the value, rounded to a
  double; no digit at all gives \<open>NaN\<close>.
\<close>

definition parseInt :: "string \<Rightarrow> number" where
  "parseInt s =
     (let s1 = dropWhile isWhiteSpace s;
          negative = (s1 \<noteq> [] \<and> hd s1 = CHR ''-'');
          s2 = (if s1 \<noteq> [] \<and> (hd s1 = CHR ''-'' \<or> hd s1 = CHR ''+'') then tl s1 else s1);
          hex = (take 2 s2 = ''0x'' \<or> take 2 s2 = ''0X'');
          radix = (if hex then 16 else 10);
          s3 = (if hex then drop 2 s2 else s2);
          ds = takeWhile (radix_digit radix) s3
      in if ds = [] then NaN
         else int_to_double ((if negative then - 1 else 1) * int (radix_value radix ds)))"

subsection \<open>Comparisons and arithmetic on versions\<close>

text \<open>
  \<open>a > b\<close>, \<open>a <= b\<close> and \<open>a === b\<close>; each is false as soon as one side is \<open>NaN\<close>.
\<close>

fun js_gt :: "number \<Rightarrow> number \<Rightarrow> bool" where
  "js_gt (Whole a) (Whole b) = (a > b)"
| "js_gt (Whole a) (Fraction q) = (of_int a > q)"
| "js_gt (Fraction p) (Whole b) = (p > of_int b)"
| "js_gt (Fraction p) (Fraction q) = (p > q)"
| "js_gt PosInf (Whole _) = True"
| "js_gt PosInf (Fraction _) = True"
| "js_gt PosInf NegInf = True"
| "js_gt (Whole _) NegInf = True"
| "js_gt (Fraction _) NegInf = True"
| "js_gt _ _ = False"

fun js_le :: "number \<Rightarrow> number \<Rightarrow> bool" where
  "js_le (Whole a) (Whole b) = (a \<le> b)"
| "js_le (Whole a) (Fraction q) = (of_int a \<le> q)"
| "js_le (Fraction p) (Whole b) = (p \<le> of_int b)"
| "js_le (Fraction p) (Fraction q) = (p \<le> q)"
| "js_le NaN _ = False"
| "js_le _ NaN = False"
| "js_le NegInf _ = True"
| "js_le _ PosInf = True"
| "js_le _ _ = False"

fun js_strict_eq :: "number \<Rightarrow> number \<Rightarrow> bool" where
  "js_strict_eq (Whole a) (Whole b) = (a = b)"
| "js_strict_eq (Whole a) (Fraction q) = (of_int a = q)"
| "js_strict_eq (Fraction p) (Whole b) = (p = of_int b)"
| "js_strict_eq (Fraction p) (Fraction q) = (p = q)"
| "js_strict_eq PosInf PosInf = True"
| "js_strict_eq NegInf NegInf = True"
| "js_strict_eq _ _ = False"

text \<open>
  \<open>version++\<close>. The sum of an integer and 1 is exact below \<open>2^53\<close>; the loop increments
  a version only after it has indexed the array with it, and an array has fewer than
  \<open>2^32\<close> entries.
\<close>

fun js_inc :: "number \<Rightarrow> number" where
  "js_inc (Whole a) = Whole (a + 1)"
| "js_inc (Fraction q) = rat_to_double (q + 1)"
| "js_inc n = n"

text \<open>
  \<open>xs[version - 1]\<close> on an array: the entry when \<open>version - 1\<close> is an index of the
  array, that is when \<open>version\<close> is an integer from 1 to the length, and \<open>undefined\<close>
  (here \<open>None\<close>) otherwise: the difference is then negative, or not an integer, or an
  infinity, or \<open>NaN\<close>.
\<close>

fun entry_before :: "'a list \<Rightarrow> number \<Rightarrow> 'a option" where
  "entry_before xs (Whole v) =
     (if 1 \<le> v \<and> v \<le> int (length xs) then Some (xs ! nat (v - 1)) else None)"
| "entry_before xs _ = None"

section \<open>JavaScript values\<close>

text \<open>
  A string is a list of code units; the model covers the code units below 256.
  \<open>ResetSentinel\<close> is the module's \<open>export const ResetSentinel = Symbol()\<close>: one symbol
  of its own, told apart from every other value by identity. The other symbols carry their
  description, a function carries its source text. An object is the list of its own
  enumerable properties in enumeration order, with distinct keys.
\<close>

datatype jsval =
    JUndefined
  | JNull
  | JBool bool
  | JNum number
  | JBigInt int
  | JStr string
  | JSymbol string
  | ResetSentinel
  | JFunction string
  | JArr "jsval list"
  | JObj "(string \<times> jsval) list"

fun typeof :: "jsval \<Rightarrow> string" where
  "typeof JUndefined = ''undefined''"
| "typeof JNull = ''object''"
| "typeof (JBool _) = ''boolean''"
| "typeof (JNum _) = ''number''"
| "typeof (JBigInt _) = ''bigint''"
| "typeof (JStr _) = ''string''"
| "typeof (JSymbol _) = ''symbol''"
| "typeof ResetSentinel = ''symbol''"
| "typeof (JFunction _) = ''function''"
| "typeof (JArr _) = ''object''"
| "typeof (JObj _) = ''object''"

text \<open>\<open>!thing\<close> is true on the falsy values.\<close>

fun falsy :: "jsval \<Rightarrow> bool" where
  "falsy JUndefined = True"
| "falsy JNull = True"
| "falsy (JBool b) = (\<not> b)"
| "falsy (JNum n) = (n = Whole 0 \<or> n = NaN)"
| "falsy (JBigInt n) = (n = 0)"
| "falsy (JStr s) = (s = [])"
| "falsy _ = False"

fun isArray :: "jsval \<Rightarrow> bool" where
  "isArray (JArr _) = True"
| "isArray _ = False"


section \<open>Errors\<close>

text \<open>
  \<open>type TypeDescription = JsType | `Array<${string}>`\<close> and
  \<open>type ShapeDescription = { [key: string]: TypeDescription | ShapeDescription }\<close>.
\<close>

datatype shape =
    TypeDescription string
  | ShapeDescription "(string \<times> shape) list"

text \<open>
  What a \<open>throw\<close> carries: a \<open>TypeError\<close> of the engine (its message is the engine's
  own and is not modelled), an \<open>Error\<close> with its message, any other thrown value, or
  the module's \<open>MigrationError\<close> with its \<open>cause\<close>, its \<open>message\<close> and its
  \<open>persistedShape\<close>.
\<close>

datatype exn =
    TypeError
  | Error string
  | Thrown jsval
  | MigrationError (cause: exn) (message: string) (persistedShape: shape)

text \<open>The results of a list of calls made in order: the first error, or all the values.\<close>

fun collect :: "(exn + 'a) list \<Rightarrow> exn + 'a list" where
  "collect [] = Inr []"
| "collect (Inl e # _) = Inl e"
| "collect (Inr x # rs) = (case collect rs of Inl e \<Rightarrow> Inl e | Inr xs \<Rightarrow> Inr (x # xs))"

section \<open>The failure description helper\<close>

text \<open>
  A descriptor inside a template literal. A string stands for itself. An object is
  converted by its \<open>toString\<close>, which is \<open>Object.prototype.toString\<close> and gives
  \<open>[object Object]\<close>, unless the descriptor has a key \<open>toString\<close> of its own: the value
  under that key is a descriptor and cannot be called, \<open>valueOf\<close> (its own, which cannot be
  called either, or the inherited one, which returns the object) gives no primitive value,
  and the conversion throws a \<open>TypeError\<close>.
\<close>

fun template_shape :: "shape \<Rightarrow> exn + string" where
  "template_shape (TypeDescription s) = Inr s"
| "template_shape (ShapeDescription kvs) =
     (if ''toString'' \<in> set (map fst kvs) then Inl TypeError else Inr ''[object Object]'')"

text \<open>
  \<open>describeShape\<close>; \<open>Inl\<close> is the error it throws. The first branch of the source,
  \<open>!thing || typeof thing !== "object"\<close>, takes every value but the arrays and the objects
  (lemma \<open>describeShape_first_branch\<close> below); it is the last equation here. The
  entries of an object are described in order, and the first error ends the call. The
  depth of the recursion is not limited here (an engine gives up, with a \<open>RangeError\<close>, at
  a depth of its own choosing).
\<close>

fun describeShape :: "jsval \<Rightarrow> exn + shape" where
  "describeShape (JArr xs) =
     (case (case xs of [] \<Rightarrow> describeShape JUndefined | x # _ \<Rightarrow> describeShape x) of
        Inl e \<Rightarrow> Inl e
      | Inr first \<Rightarrow>
          (case template_shape first of
             Inl e \<Rightarrow> Inl e
           | Inr t \<Rightarrow> Inr (TypeDescription (''Array<'' @ t @ ''>''))))"
| "describeShape (JObj kvs) =
     (case collect (map (\<lambda>(key, value).
                           case describeShape value of
                             Inl e \<Rightarrow> Inl e
                           | Inr d \<Rightarrow> Inr (key, d)) kvs) of
        Inl e \<Rightarrow> Inl e
      | Inr entries \<Rightarrow> Inr (ShapeDescription entries))"
| "describeShape thing = Inr (TypeDescription (typeof thing))"

subsection \<open>\<open>JSON.stringify\<close> on a descriptor\<close>

text \<open>
  \<open>QuoteJSONString\<close>: the quote and the backslash are escaped, the control characters
  are written as \<open>\b \t \n \f \r\<close> or as \<open>\u00xx\<close>, every other code unit stands for
  itself.
\<close>

definition json_escape :: "char \<Rightarrow> string" where
  "json_escape c =
     (let n = (of_char c :: nat) in
      if n = 0x22 then [CHR 0x5C, CHR 0x22]
      else if n = 0x5C then [CHR 0x5C, CHR 0x5C]
      else if n = 8 then [CHR 0x5C, CHR ''b'']
      else if n = 9 then [CHR 0x5C, CHR ''t'']
      else if n = 10 then [CHR 0x5C, CHR ''n'']
      else if n = 12 then [CHR 0x5C, CHR ''f'']
      else if n = 13 then [CHR 0x5C, CHR ''r'']
      else if n < 32 then
        [CHR 0x5C] @ ''u00'' @ [''0123456789abcdef'' ! (n div 16), ''0123456789abcdef'' ! (n mod 16)]
      else [c])"

definition json_quote :: "string \<Rightarrow> string" where
  "json_quote s = [CHR 0x22] @ concat (map json_escape s) @ [CHR 0x22]"

fun join :: "string \<Rightarrow> string list \<Rightarrow> string" where
  "join sep [] = []"
| "join sep [x] = x"
| "join sep (x # y # ys) = x @ sep @ join sep (y # ys)"

text \<open>
  A descriptor holds strings and descriptors only, no function: \<open>JSON.stringify\<close> finds
  no \<open>toJSON\<close> to call, and writes every entry.
\<close>

fun JSON_stringify :: "shape \<Rightarrow> string" where
  "JSON_stringify (TypeDescription s) = json_quote s"
| "JSON_stringify (ShapeDescription kvs) =
     ''{'' @ join '','' (map (\<lambda>(key, value). json_quote key @ '':'' @ JSON_stringify value) kvs)
       @ ''}''"

subsection \<open>The constructor of \<open>MigrationError\<close>\<close>

record meta =
  fromVersion :: number
  toVersion :: number
  persistedData :: jsval

text \<open>
  The constructor describes the data first; when \<open>describeShape\<close> throws, so does the
  constructor (\<open>Inl\<close>), and no \<open>MigrationError\<close> comes to be.
  \<open>serializedShape.slice(0, 60)\<close> is \<open>take 60\<close>.
\<close>

definition MigrationError_constructor :: "exn \<Rightarrow> meta \<Rightarrow> exn + exn" where
  "MigrationError_constructor c m =
     (case describeShape (persistedData m) of
        Inl e \<Rightarrow> Inl e
      | Inr shape \<Rightarrow>
          (let serializedShape = JSON_stringify shape;
               msg = ''Migration from '' @ NumberToString (fromVersion m) @ '' to ''
                     @ NumberToString (toVersion m) @ '' failed. Persisted ''
                     @ take 60 serializedShape
           in Inr (MigrationError c msg shape)))"

text \<open>
  What the statement \<open>throw new MigrationError(cause, meta)\<close> throws: the error that the
  constructor throws, or the \<open>MigrationError\<close> it has made.
\<close>

definition new_MigrationError :: "exn \<Rightarrow> meta \<Rightarrow> exn" where
  "new_MigrationError c m =
     (case MigrationError_constructor c m of Inl e \<Rightarrow> e | Inr made \<Rightarrow> made)"

section \<open>The migration runner\<close>

text \<open>
  A migration step is a JavaScript function: it may return, throw, and change whatever it
  has closed over. \<open>'w\<close> is the state that the callbacks of the chain can read and write;
  a step takes it and returns it updated, next to its result or the error it threw.
\<close>

type_synonym 'w MigrationFn = "jsval \<Rightarrow> 'w \<Rightarrow> (exn + jsval) \<times> 'w"

text \<open>
  The class \<open>Migrations\<close> has one field, the array \<open>migrations\<close>; an instance is modelled
  by the contents of that array. \<open>add\<close> is \<open>unshift\<close>.
\<close>

type_synonym 'w Migrations = "'w MigrationFn list"

definition Migrations_add :: "'w MigrationFn \<Rightarrow> 'w Migrations \<Rightarrow> 'w Migrations" where
  "Migrations_add migrationFn ms = migrationFn # ms"

definition Migrations_currentVersion :: "'w Migrations \<Rightarrow> number" where
  "Migrations_currentVersion ms = Whole (int (length ms))"

text \<open>
  The \<open>for\<close> loop of \<open>run\<close>. It returns the final \<open>state\<close>, or the thrown error together
  with the values that the variables \<open>state\<close> and \<open>version\<close> hold when the \<open>catch\<close>
  block reads them. Calling \<open>undefined\<close> throws a \<open>TypeError\<close>. The array is private
  to the class and only the builder adds to it: it does not change while \<open>run\<close> executes.
\<close>

function run_loop ::
  "'w Migrations \<Rightarrow> jsval \<Rightarrow> number \<Rightarrow> 'w \<Rightarrow> ((exn \<times> jsval \<times> number) + jsval) \<times> 'w" where
  "run_loop ms state version w =
     (if js_le version (Migrations_currentVersion ms) then
        (case entry_before ms version of
           None \<Rightarrow> (Inl (TypeError, state, version), w)
         | Some migrationFn \<Rightarrow>
             (case migrationFn state w of
                (Inl error, w') \<Rightarrow> (Inl (error, state, version), w')
              | (Inr state', w') \<Rightarrow> run_loop ms state' (js_inc version) w'))
      else (Inr state, w))"
  by pat_completeness auto
termination
  by (relation "measure (\<lambda>(ms, state, version, w).
          case version of Whole v \<Rightarrow> nat (int (length ms) + 1 - v) | NaN \<Rightarrow> 0)")
     (auto simp: Migrations_currentVersion_def split: number.splits)

declare run_loop.simps [simp del]

definition Migrations_run :: "'w Migrations \<Rightarrow> jsval \<Rightarrow> number \<Rightarrow> 'w \<Rightarrow> (exn + jsval) \<times> 'w" where
  "Migrations_run ms state version w =
     (if js_gt version (Migrations_currentVersion ms) then (Inr ResetSentinel, w)
      else
        (case run_loop ms state version w of
           (Inr state', w') \<Rightarrow> (Inr state', w')
         | (Inl (error, state', version'), w') \<Rightarrow>
             (Inl (new_MigrationError error
                     \<lparr>fromVersion = version',
                      toVersion = Migrations_currentVersion ms,
                      persistedData = state'\<rparr>), w')))"


section \<open>The version chain builder\<close>

text \<open>
  \<open>buildMigration\<close> creates one \<open>Migrations\<close> instance, and every build step object holds
  that same instance: a call of a builder method is modelled by its effect on the
  instance, and the definition callback by the composition of the calls it makes.
\<close>

definition CurrentVersionBuildStep_currentVersion ::
  "'w MigrationFn \<Rightarrow> 'w Migrations \<Rightarrow> 'w Migrations" where
  "CurrentVersionBuildStep_currentVersion validate ms = Migrations_add validate ms"

text \<open>The step added by \<open>olderVersion\<close> is the closure \<open>(state) => migrate(validate(state))\<close>.\<close>

definition OlderVersionBuildStep_olderVersion ::
  "'w MigrationFn \<Rightarrow> 'w MigrationFn \<Rightarrow> 'w Migrations \<Rightarrow> 'w Migrations" where
  "OlderVersionBuildStep_olderVersion validate migrate ms =
     Migrations_add
       (\<lambda>state w. case validate state w of
                     (Inl error, w') \<Rightarrow> (Inl error, w')
                   | (Inr own, w') \<Rightarrow> migrate own w')
       ms"

text \<open>\<open>VersioningConfig\<close>: the getters \<open>version\<close> and \<open>migrate\<close> of \<open>BuildResult\<close>.\<close>

record 'w VersioningConfig =
  version :: number
  migrate :: "jsval \<Rightarrow> number \<Rightarrow> 'w \<Rightarrow> (exn + jsval) \<times> 'w"

definition BuildResult :: "'w Migrations \<Rightarrow> 'w VersioningConfig" where
  "BuildResult migrations =
     \<lparr>version = Migrations_currentVersion migrations, migrate = Migrations_run migrations\<rparr>"

definition buildMigration :: "('w Migrations \<Rightarrow> 'w Migrations) \<Rightarrow> 'w VersioningConfig" where
  "buildMigration migrationsDefinition = BuildResult (migrationsDefinition [])"

text \<open>
  A chain declared with \<open>currentVersion(validate)\<close> and then one \<open>olderVersion\<close> call for
  each pair of \<open>olds\<close>, in the order of the calls (the newest of the older versions first).
\<close>

definition chain ::
  "'w MigrationFn \<Rightarrow> ('w MigrationFn \<times> 'w MigrationFn) list \<Rightarrow> 'w Migrations \<Rightarrow> 'w Migrations" where
  "chain validate olds ms =
     foldl (\<lambda>ms' (v, u). OlderVersionBuildStep_olderVersion v u ms')
       (CurrentVersionBuildStep_currentVersion validate ms) olds"

section \<open>The specification's reading of the runner\<close>

text \<open>
  The specification's step transform, "validate then upgrade", and its replay of a list of
  steps in order, each on the result of the one before, stopping at the first that throws.
\<close>

definition validate_then_upgrade :: "'w MigrationFn \<Rightarrow> 'w MigrationFn \<Rightarrow> 'w MigrationFn" where
  "validate_then_upgrade validate upgrade state w =
     (case validate state w of
        (Inl error, w') \<Rightarrow> (Inl error, w')
      | (Inr own, w') \<Rightarrow> upgrade own w')"

fun apply_in_order :: "'w MigrationFn list \<Rightarrow> jsval \<Rightarrow> 'w \<Rightarrow> (exn + jsval) \<times> 'w" where
  "apply_in_order [] data w = (Inr data, w)"
| "apply_in_order (step # steps) data w =
     (case step data w of
        (Inl error, w') \<Rightarrow> (Inl error, w')
      | (Inr data', w') \<Rightarrow> apply_in_order steps data' w')"

text \<open>
  The steps that bring a payload of version \<open>pv\<close> to version \<open>k\<close>: the entries
  \<open>pv - 1, \<dots>, k - 2\<close> of the array.
\<close>

definition steps_between :: "'w Migrations \<Rightarrow> int \<Rightarrow> int \<Rightarrow> 'w MigrationFn list" where
  "steps_between ms pv k = take (nat (k - pv)) (drop (nat (pv - 1)) ms)"


section \<open>The chains of the test suite\<close>

subsection \<open>Built-in conversions\<close>

text \<open>
  \<open>ToString\<close> of the language. A symbol cannot be converted; a BigInt is written with all
  its digits; an array joins the strings of its elements with commas, \<open>undefined\<close> and
  \<open>null\<close> elements giving the empty string.
\<close>

fun ToString :: "jsval \<Rightarrow> exn + string" where
  "ToString JUndefined = Inr ''undefined''"
| "ToString JNull = Inr ''null''"
| "ToString (JBool b) = Inr (if b then ''true'' else ''false'')"
| "ToString (JNum n) = Inr (NumberToString n)"
| "ToString (JBigInt n) = Inr ((if n < 0 then ''-'' else []) @ digits (nat \<bar>n\<bar>))"
| "ToString (JStr s) = Inr s"
| "ToString (JSymbol _) = Inl TypeError"
| "ToString ResetSentinel = Inl TypeError"
| "ToString (JFunction src) = Inr src"
| "ToString (JObj _) = Inr ''[object Object]''"
| "ToString (JArr xs) =
     (case collect (map (\<lambda>x. if x = JUndefined \<or> x = JNull then Inr [] else ToString x) xs) of
        Inl e \<Rightarrow> Inl e
      | Inr strs \<Rightarrow> Inr (join '','' strs))"

text \<open>\<open>String(value)\<close>: as \<open>ToString\<close>, but a symbol is rendered by its description.\<close>

fun js_String :: "jsval \<Rightarrow> exn + string" where
  "js_String (JSymbol d) = Inr (''Symbol('' @ d @ '')'')"
| "js_String ResetSentinel = Inr ''Symbol()''"
| "js_String v = ToString v"

text \<open>\<open>Number(value)\<close>; an object, an array or a function is converted through its string.\<close>

fun js_Number :: "jsval \<Rightarrow> exn + number" where
  "js_Number JUndefined = Inr NaN"
| "js_Number JNull = Inr (Whole 0)"
| "js_Number (JBool b) = Inr (Whole (if b then 1 else 0))"
| "js_Number (JNum n) = Inr n"
| "js_Number (JBigInt n) = Inr (int_to_double n)"
| "js_Number (JStr s) = Inr (StringToNumber s)"
| "js_Number (JSymbol _) = Inl TypeError"
| "js_Number ResetSentinel = Inl TypeError"
| "js_Number v = (case ToString v of Inl e \<Rightarrow> Inl e | Inr s \<Rightarrow> Inr (StringToNumber s))"

text \<open>
  The property read \<open>thing.key\<close>, for a key that no prototype defines (\<open>foo\<close>, \<open>bar\<close>,
  \<open>baz\<close>): it throws on \<open>undefined\<close> and \<open>null\<close>, reads the own property of an object and
  is \<open>undefined\<close> everywhere else.
\<close>

fun get_prop :: "jsval \<Rightarrow> string \<Rightarrow> exn + jsval" where
  "get_prop JUndefined key = Inl TypeError"
| "get_prop JNull key = Inl TypeError"
| "get_prop (JObj kvs) key = Inr (case map_of kvs key of None \<Rightarrow> JUndefined | Some v \<Rightarrow> v)"
| "get_prop _ key = Inr JUndefined"

subsection \<open>The codecs of io-ts\<close>

text \<open>
  The tests validate with codecs of the library io-ts, which is a dependency and not part
  of the repository. Its codecs are modelled as far as the tests use them: \<open>string\<close> and
  \<open>number\<close> test \<open>typeof\<close>, \<open>type(props)\<close> accepts an object whose listed properties are
  accepted by their codecs (further properties are allowed), and decoding an accepted value
  returns it as it is.
\<close>

datatype codec = t_string | t_number | t_type "(string \<times> codec) list"

fun codec_is :: "codec \<Rightarrow> jsval \<Rightarrow> bool" where
  "codec_is t_string u = (typeof u = ''string'')"
| "codec_is t_number u = (typeof u = ''number'')"
| "codec_is (t_type props) u =
     (case u of
        JObj kvs \<Rightarrow>
          list_all (\<lambda>(key, c). codec_is c (case map_of kvs key of None \<Rightarrow> JUndefined | Some v \<Rightarrow> v))
            props
      | _ \<Rightarrow> False)"

text \<open>A function of the tests that touches nothing but its argument.\<close>

definition pure_fn :: "(jsval \<Rightarrow> exn + jsval) \<Rightarrow> 'w MigrationFn" where
  "pure_fn f state w = (f state, w)"

definition mustBe :: "codec \<Rightarrow> 'w MigrationFn" where
  "mustBe c =
     pure_fn (\<lambda>thing. if codec_is c thing then Inr thing else Inl (Error ''[test] validation fail''))"

definition v1 :: codec where "v1 = t_type [(''foo'', t_string)]"
definition v2 :: codec where "v2 = t_type [(''bar'', t_number)]"
definition v3 :: codec where "v3 = t_type [(''baz'', t_string)]"

text \<open>\<open>v0 => ({ bar: Number(v0.foo) })\<close> and \<open>v1 => ({ baz: String(v1.bar) })\<close>.\<close>

definition upgrade_foo_bar :: "'w MigrationFn" where
  "upgrade_foo_bar =
     pure_fn (\<lambda>v0. case get_prop v0 ''foo'' of
                     Inl e \<Rightarrow> Inl e
                   | Inr foo \<Rightarrow> (case js_Number foo of
                                   Inl e \<Rightarrow> Inl e
                                 | Inr n \<Rightarrow> Inr (JObj [(''bar'', JNum n)])))"

definition upgrade_bar_baz :: "'w MigrationFn" where
  "upgrade_bar_baz =
     pure_fn (\<lambda>v1'. case get_prop v1' ''bar'' of
                     Inl e \<Rightarrow> Inl e
                   | Inr bar \<Rightarrow> (case js_String bar of
                                   Inl e \<Rightarrow> Inl e
                                 | Inr s \<Rightarrow> Inr (JObj [(''baz'', JStr s)])))"

definition setupV1 :: "'w VersioningConfig" where
  "setupV1 = buildMigration (CurrentVersionBuildStep_currentVersion (mustBe v1))"

definition setupV2 :: "'w VersioningConfig" where
  "setupV2 =
     buildMigration
       (OlderVersionBuildStep_olderVersion (mustBe v1) upgrade_foo_bar
        \<circ> CurrentVersionBuildStep_currentVersion (mustBe v2))"

definition setupV3 :: "'w VersioningConfig" where
  "setupV3 =
     buildMigration
       (OlderVersionBuildStep_olderVersion (mustBe v1) upgrade_foo_bar
        \<circ> OlderVersionBuildStep_olderVersion (mustBe v2) upgrade_bar_baz
        \<circ> CurrentVersionBuildStep_currentVersion (mustBe v3))"


subsection \<open>Further callbacks\<close>

text \<open>
  A validator that accepts every payload and counts how often it is called, in a state
  that is a counter; and a validator that rejects every payload.
\<close>

definition counting :: "nat MigrationFn" where
  "counting data n = (Inr data, Suc n)"

definition rejecting :: "string \<Rightarrow> 'w MigrationFn" where
  "rejecting msg = pure_fn (\<lambda>thing. Inl (Error msg))"

text \<open>
  A chain of three versions whose validator for version 2 rejects every payload:
  \<open>currentVersion(mustBe(v3)).olderVersion(rejecting, \<dots>).olderVersion(mustBe(v1), \<dots>)\<close>.
\<close>

definition strict_chain :: "unit Migrations" where
  "strict_chain = chain (mustBe v3)
     [(rejecting ''no v2'', upgrade_bar_baz), (mustBe v1, upgrade_foo_bar)] []"

section \<open>The disk space\<close>

subsection \<open>Built-in string functions\<close>

text \<open>
  \<open>s.indexOf(c)\<close> for a one-character \<open>c\<close>, \<open>s.slice(start, fin)\<close> and \<open>s.slice(start)\<close>;
  a negative index of \<open>slice\<close> counts from the end of the string.
\<close>

definition indexOf :: "string \<Rightarrow> char \<Rightarrow> int" where
  "indexOf s c =
     (let n = length (takeWhile (\<lambda>x. x \<noteq> c) s) in if n = length s then - 1 else int n)"

definition clamp_index :: "nat \<Rightarrow> int \<Rightarrow> nat" where
  "clamp_index len i = (if i < 0 then nat (max (int len + i) 0) else min (nat i) len)"

definition slice :: "string \<Rightarrow> int \<Rightarrow> int \<Rightarrow> string" where
  "slice s start fin =
     (let from = clamp_index (length s) start; to = clamp_index (length s) fin
      in take (to - from) (drop from s))"

definition slice_from :: "string \<Rightarrow> int \<Rightarrow> string" where
  "slice_from s start = drop (clamp_index (length s) start) s"

subsection \<open>Configuration\<close>

text \<open>
  What the selector returns (\<open>SyncUpdate\<close>); a missing, \<open>null\<close> or \<open>undefined\<close> owner or
  state is \<open>None\<close>.
\<close>

record SyncUpdate =
  owner :: "string option"
  state :: "jsval option"
  skipSync :: bool

text \<open>
  What \<open>config.hydrate\<close> returns: an action to dispatch, or a task, a function that is
  called with \<open>dispatch\<close>; a task is modelled by the actions it dispatches.
\<close>

datatype 'a actionOrTask = Action 'a | Task "'a list"

text \<open>
  \<open>Config\<close> extends \<open>VersioningConfig\<close>. \<open>json_parse\<close> and \<open>json_stringify\<close> are the two
  functions of \<open>config.json\<close>; either may throw. The field \<open>storage\<close> of the source is a
  mutable object and lives in the state below; \<open>compare\<close> is read by the update effect
  only, which is not modelled.
\<close>

record ('p, 'a, 'w) Config = "'w VersioningConfig" +
  key :: string
  hydrate :: "jsval \<Rightarrow> 'a actionOrTask"
  select :: "'p \<Rightarrow> SyncUpdate"
  json_parse :: "string \<Rightarrow> exn + jsval"
  json_stringify :: "jsval \<Rightarrow> exn + string"

text \<open>
  The state that the effects work on: the contents of the storage (\<open>getItem\<close> of a key
  that is not there is \<open>null\<close>), the actions passed to \<open>dispatch\<close> so far, and the state of
  the callbacks of the migration.
\<close>

record ('a, 'w) world =
  storage :: "string \<rightharpoonup> string"
  dispatched :: "'a list"
  callbacks :: 'w

text \<open>The record that \<open>get\<close> returns, \<open>{ data, version }\<close>.\<close>

record persisted =
  stored_data :: jsval
  stored_version :: number

definition NAMESPACE :: string where
  "NAMESPACE = ''aRzf3d7co0u-DISK''"

definition namespacedKey :: "('p, 'a, 'w) Config \<Rightarrow> string" where
  "namespacedKey config = NAMESPACE @ '':'' @ key config @ '':''"

definition separator :: char where
  "separator = CHR ''|''"

definition getOwnedKey :: "('p, 'a, 'w) Config \<Rightarrow> string \<Rightarrow> string" where
  "getOwnedKey config ownerKey = namespacedKey config @ ownerKey"

text \<open>\<open>get\<close>: \<open>Inr None\<close> is the result \<open>undefined\<close>; \<open>typeof version\<close> is always \<open>"number"\<close>.\<close>

definition disk_get ::
  "('p, 'a, 'w) Config \<Rightarrow> string \<Rightarrow> (string \<rightharpoonup> string) \<Rightarrow> exn + persisted option" where
  "disk_get config ownerKey store =
     (case store (getOwnedKey config ownerKey) of
        None \<Rightarrow> Inr None
      | Some storedString \<Rightarrow>
          if storedString = [] then Inr None
          else
            (let separatorIdx = indexOf storedString separator;
                 ver = parseInt (slice storedString 0 separatorIdx)
             in case json_parse config (slice_from storedString (separatorIdx + 1)) of
                  Inl e \<Rightarrow> Inl e
                | Inr data \<Rightarrow>
                    if data = JNull \<or> data = JUndefined \<or> typeof (JNum ver) \<noteq> ''number''
                    then Inr None
                    else Inr (Some \<lparr>stored_data = data, stored_version = ver\<rparr>)))"

definition disk_set ::
  "('p, 'a, 'w) Config \<Rightarrow> string \<Rightarrow> jsval \<Rightarrow> (string \<rightharpoonup> string) \<Rightarrow> exn + (string \<rightharpoonup> string)" where
  "disk_set config ownerKey data store =
     (case json_stringify config data of
        Inl e \<Rightarrow> Inl e
      | Inr text \<Rightarrow>
          Inr (store(getOwnedKey config ownerKey \<mapsto>
                 NumberToString (version config) @ [separator] @ text)))"

definition disk_clear ::
  "('p, 'a, 'w) Config \<Rightarrow> string \<Rightarrow> (string \<rightharpoonup> string) \<Rightarrow> (string \<rightharpoonup> string)" where
  "disk_clear config ownerKey store = store(getOwnedKey config ownerKey := None)"

section \<open>The hydrate effect\<close>

text \<open>\<open>ensureVersionRelevance\<close>; the result \<open>undefined\<close> is \<open>JUndefined\<close>.\<close>

definition ensureVersionRelevance ::
  "('p, 'a, 'w) Config \<Rightarrow> persisted \<Rightarrow> string \<Rightarrow> ('a, 'w) world \<Rightarrow> (exn + jsval) \<times> ('a, 'w) world" where
  "ensureVersionRelevance config p ownerKey wd =
     (if js_strict_eq (stored_version p) (version config) then (Inr (stored_data p), wd)
      else
        (case migrate config (stored_data p) (stored_version p) (callbacks wd) of
           (Inl e, cb) \<Rightarrow> (Inl e, wd\<lparr>callbacks := cb\<rparr>)
         | (Inr migratedData, cb) \<Rightarrow>
             if migratedData = ResetSentinel
             then (Inr JUndefined,
                   wd\<lparr>callbacks := cb, storage := disk_clear config ownerKey (storage wd)\<rparr>)
             else
               (case disk_set config ownerKey migratedData (storage wd) of
                  Inl e \<Rightarrow> (Inl e, wd\<lparr>callbacks := cb\<rparr>)
                | Inr store \<Rightarrow> (Inr migratedData, wd\<lparr>callbacks := cb, storage := store\<rparr>))))"

text \<open>
  \<open>theHydrateEffect\<close>, called with an \<open>api\<close> whose \<open>getState()\<close> is \<open>parent\<close> and whose
  \<open>dispatch\<close> appends to \<open>dispatched\<close>.
\<close>

definition theHydrateEffect ::
  "('p, 'a, 'w) Config \<Rightarrow> 'p \<Rightarrow> ('a, 'w) world \<Rightarrow> (exn + unit) \<times> ('a, 'w) world" where
  "theHydrateEffect config parent wd =
     (case owner (select config parent) of
        None \<Rightarrow> (Inr (), wd)
      | Some ownerKey \<Rightarrow>
          (case disk_get config ownerKey (storage wd) of
             Inl e \<Rightarrow> (Inl e, wd)
           | Inr None \<Rightarrow> (Inr (), wd)
           | Inr (Some persistedRecord) \<Rightarrow>
               (case ensureVersionRelevance config persistedRecord ownerKey wd of
                  (Inl e, wd') \<Rightarrow> (Inl e, wd')
                | (Inr validData, wd') \<Rightarrow>
                    if falsy validData then (Inr (), wd')
                    else
                      (case hydrate config validData of
                         Task actions \<Rightarrow> (Inr (), wd'\<lparr>dispatched := dispatched wd' @ actions\<rparr>)
                       | Action action \<Rightarrow> (Inr (), wd'\<lparr>dispatched := dispatched wd' @ [action]\<rparr>)))))"


section \<open>Resolving the configuration\<close>

text \<open>
  \<open>actualize\<close> is a version manifest, an object with \<open>version\<close> and \<open>migrate\<close>, or a
  definition callback for \<open>buildMigration\<close>. The serializer is always given here: the
  default, the built-in \<open>JSON\<close>, is not modelled.
\<close>

datatype 'w actualize = Manifest "'w VersioningConfig" | Builder "'w Migrations \<Rightarrow> 'w Migrations"

definition resolveConfig ::
  "string \<Rightarrow> 'w actualize \<Rightarrow> (jsval \<Rightarrow> 'a actionOrTask) \<Rightarrow> ('p \<Rightarrow> SyncUpdate)
     \<Rightarrow> (string \<Rightarrow> exn + jsval) \<Rightarrow> (jsval \<Rightarrow> exn + string) \<Rightarrow> ('p, 'a, 'w) Config" where
  "resolveConfig k act hyd sel parse stringify =
     (let vc = (case act of Manifest m \<Rightarrow> m | Builder b \<Rightarrow> buildMigration b)
      in \<lparr>version = version vc, migrate = migrate vc, key = k, hydrate = hyd, select = sel,
          json_parse = parse, json_stringify = stringify\<rparr>)"

subsection \<open>A configuration for the examples\<close>

text \<open>
  A serializer in the manner of \<open>JSON\<close> for \<open>null\<close>, the natural numbers and the strings
  without escapes; it throws on everything else. The examples persist under the key
  \<open>test\<close> for the owner \<open>static\<close> and hydrate with one action that carries the state,
  as the test suite does.
\<close>

definition plain_parse :: "string \<Rightarrow> exn + jsval" where
  "plain_parse s =
     (if s = ''null'' then Inr JNull
      else if 2 \<le> length s \<and> hd s = CHR 0x22 \<and> last s = CHR 0x22
              \<and> list_all (\<lambda>c. c \<noteq> CHR 0x22 \<and> c \<noteq> CHR 0x5C) (butlast (tl s))
           then Inr (JStr (butlast (tl s)))
      else if s \<noteq> [] \<and> list_all isDigit s then Inr (JNum (int_to_double (int (radix_value 10 s))))
      else Inl (Error ''SyntaxError''))"

definition plain_stringify :: "jsval \<Rightarrow> exn + string" where
  "plain_stringify v =
     (case v of
        JNull \<Rightarrow> Inr ''null''
      | JNum n \<Rightarrow> Inr (if n = NaN \<or> n = PosInf \<or> n = NegInf then ''null'' else NumberToString n)
      | JStr s \<Rightarrow> Inr (json_quote s)
      | _ \<Rightarrow> Inl TypeError)"

definition example_config :: "'w actualize \<Rightarrow> (unit, jsval, 'w) Config" where
  "example_config act =
     resolveConfig ''test'' act Action
       (\<lambda>_. \<lparr>owner = Some ''static'', state = None, skipSync = False\<rparr>)
       plain_parse plain_stringify"

section \<open>Properties\<close>

subsection \<open>The loop\<close>

lemma run_loop_in_range:
  assumes "1 \<le> v" "v \<le> int (length ms)"
  shows "run_loop ms s (Whole v) w =
     (case (ms ! nat (v - 1)) s w of
        (Inl e, w') \<Rightarrow> (Inl (e, s, Whole v), w')
      | (Inr s', w') \<Rightarrow> run_loop ms s' (Whole (v + 1)) w')"
  using assms
  by (subst run_loop.simps) (simp add: Migrations_currentVersion_def split: prod.splits sum.splits)

lemma run_loop_past_end:
  assumes "int (length ms) < v"
  shows "run_loop ms s (Whole v) w = (Inr s, w)"
  using assms by (subst run_loop.simps) (simp add: Migrations_currentVersion_def)

lemma run_loop_below_one:
  assumes "v < 1"
  shows "run_loop ms s (Whole v) w = (Inl (TypeError, s, Whole v), w)"
  using assms by (subst run_loop.simps) (simp add: Migrations_currentVersion_def)

lemma drop_step:
  assumes "1 \<le> v" "v \<le> int (length ms)"
  shows "drop (nat (v - 1)) ms = (ms ! nat (v - 1)) # drop (nat v) ms"
proof -
  have "nat (v - 1) < length ms" using assms by simp
  then have "drop (nat (v - 1)) ms = (ms ! nat (v - 1)) # drop (Suc (nat (v - 1))) ms"
    by (simp add: Cons_nth_drop_Suc)
  moreover have "Suc (nat (v - 1)) = nat v" using assms by simp
  ultimately show ?thesis by simp
qed

lemma run_loop_apply_in_order:
  assumes "1 \<le> v" "v \<le> int (length ms) + 1"
  shows "map_prod (map_sum fst id) id (run_loop ms s (Whole v) w)
         = apply_in_order (drop (nat (v - 1)) ms) s w"
  using assms
proof (induction "nat (int (length ms) + 1 - v)" arbitrary: v s w)
  case 0
  then have "int (length ms) < v" by simp
  with 0 show ?case by (simp add: run_loop_past_end)
next
  case (Suc n)
  then have le: "v \<le> int (length ms)" by simp
  note d = drop_step [OF Suc.prems(1) le]
  show ?case
  proof (cases "(ms ! nat (v - 1)) s w")
    case (Pair r w')
    show ?thesis
    proof (cases r)
      case (Inl e)
      with Pair show ?thesis using Suc.prems le by (simp add: run_loop_in_range d)
    next
      case (Inr s')
      have "map_prod (map_sum fst id) id (run_loop ms s' (Whole (v + 1)) w')
            = apply_in_order (drop (nat (v + 1 - 1)) ms) s' w'"
        using Suc.hyps Suc.prems le by (intro Suc.hyps(1)) auto
      with Pair Inr show ?thesis using Suc.prems le by (simp add: run_loop_in_range d)
    qed
  qed
qed

lemma steps_between_empty: "steps_between ms k k = []"
  by (simp add: steps_between_def)

lemma steps_between_step:
  assumes "1 \<le> pv" "pv < k" "k \<le> int (length ms) + 1"
  shows "steps_between ms pv k = (ms ! nat (pv - 1)) # steps_between ms (pv + 1) k"
proof -
  have le: "pv \<le> int (length ms)" using assms by simp
  have "nat (k - pv) = Suc (nat (k - (pv + 1)))" using assms by simp
  then show ?thesis
    using drop_step [OF assms(1) le] by (simp add: steps_between_def)
qed

lemma run_loop_prefix:
  assumes "1 \<le> pv" "pv \<le> k" "k \<le> int (length ms) + 1"
      and "apply_in_order (steps_between ms pv k) d w = (Inr s, w1)"
  shows "run_loop ms d (Whole pv) w = run_loop ms s (Whole k) w1"
  using assms
proof (induction "nat (k - pv)" arbitrary: pv d w)
  case 0
  then have "pv = k" by simp
  with 0 show ?case by (simp add: steps_between_empty)
next
  case (Suc n)
  then have lt: "pv < k" by simp
  then have le: "pv \<le> int (length ms)" using Suc.prems by simp
  note sb = steps_between_step [OF Suc.prems(1) lt Suc.prems(3)]
  obtain r w' where first: "(ms ! nat (pv - 1)) d w = (r, w')" by (cases "(ms ! nat (pv - 1)) d w")
  show ?case
  proof (cases r)
    case (Inl e)
    with first Suc.prems(4) show ?thesis by (simp add: sb)
  next
    case (Inr d')
    with first Suc.prems(4) have rest: "apply_in_order (steps_between ms (pv + 1) k) d' w' = (Inr s, w1)"
      by (simp add: sb)
    have "run_loop ms d' (Whole (pv + 1)) w' = run_loop ms s (Whole k) w1"
      using Suc.hyps(2) Suc.prems lt rest by (intro Suc.hyps(1)) auto
    with first Inr show ?thesis using Suc.prems(1) le by (simp add: run_loop_in_range)
  qed
qed

lemma run_loop_throws_at:
  assumes "1 \<le> pv" "pv \<le> k" "k \<le> int (length ms)"
      and "apply_in_order (steps_between ms pv k) d w = (Inr s, w1)"
      and "(ms ! nat (k - 1)) s w1 = (Inl e, w2)"
  shows "run_loop ms d (Whole pv) w = (Inl (e, s, Whole k), w2)"
proof -
  have "run_loop ms d (Whole pv) w = run_loop ms s (Whole k) w1"
    using assms by (intro run_loop_prefix) auto
  also have "\<dots> = (Inl (e, s, Whole k), w2)"
    using assms by (simp add: run_loop_in_range)
  finally show ?thesis .
qed

lemma Migrations_run_throws_at:
  assumes "1 \<le> pv" "pv \<le> k" "k \<le> int (length ms)"
      and "apply_in_order (steps_between ms pv k) d w = (Inr s, w1)"
      and "(ms ! nat (k - 1)) s w1 = (Inl e, w2)"
  shows "Migrations_run ms d (Whole pv) w =
           (Inl (new_MigrationError e
                   \<lparr>fromVersion = Whole k, toVersion = Migrations_currentVersion ms,
                    persistedData = s\<rparr>), w2)"
  using assms run_loop_throws_at [OF assms]
  by (simp add: Migrations_run_def Migrations_currentVersion_def)

subsection \<open>The builder\<close>

lemma olderVersion_step:
  "OlderVersionBuildStep_olderVersion v u ms = validate_then_upgrade v u # ms"
  by (simp add: OlderVersionBuildStep_olderVersion_def Migrations_add_def
      validate_then_upgrade_def fun_eq_iff)

lemma foldl_olderVersion:
  "foldl (\<lambda>ms' (v, u). OlderVersionBuildStep_olderVersion v u ms') ms olds
     = map (\<lambda>(v, u). validate_then_upgrade v u) (rev olds) @ ms"
  by (induction olds arbitrary: ms) (auto simp: olderVersion_step)

lemma chain_steps:
  "chain cur olds ms = map (\<lambda>(v, u). validate_then_upgrade v u) (rev olds) @ cur # ms"
  by (simp add: chain_def foldl_olderVersion CurrentVersionBuildStep_currentVersion_def
      Migrations_add_def)

lemma length_chain: "length (chain cur olds []) = Suc (length olds)"
  by (simp add: chain_steps)

lemma migrate_buildMigration: "migrate (buildMigration def) = Migrations_run (def [])"
  by (simp add: buildMigration_def BuildResult_def)

lemma version_buildMigration: "version (buildMigration def) = Migrations_currentVersion (def [])"
  by (simp add: buildMigration_def BuildResult_def)

lemma run_forgets_thrown_value:
  assumes "\<not> js_gt v (Migrations_currentVersion ms)"
  shows "map_prod (map_sum (\<lambda>_. ()) id) id (Migrations_run ms d v w)
         = map_prod (map_sum (\<lambda>_. ()) id) id (run_loop ms d v w)"
  using assms by (auto simp: Migrations_run_def split: prod.splits sum.splits)

lemma run_loop_outcome:
  assumes "1 \<le> v" "v \<le> int (length ms) + 1"
  shows "map_prod (map_sum (\<lambda>_. ()) id) id (run_loop ms s (Whole v) w)
         = map_prod (map_sum (\<lambda>_. ()) id) id (apply_in_order (drop (nat (v - 1)) ms) s w)"
proof -
  have "map_prod (map_sum (\<lambda>_. ()) id) id (run_loop ms s (Whole v) w)
        = map_prod (map_sum (\<lambda>_. ()) id) id
            (map_prod (map_sum fst id) id (run_loop ms s (Whole v) w))"
    by (cases "run_loop ms s (Whole v) w"; cases "fst (run_loop ms s (Whole v) w)") auto
  then show ?thesis by (simp only: run_loop_apply_in_order [OF assms])
qed

lemma number_example_123:
  "StringToNumber ''123'' = Whole 123" "NumberToString (Whole 123) = ''123''"
  "NumberToString (Whole 7) = ''7''"
  by code_simp+

lemma setupV3_chain:
  "setupV3 = buildMigration (chain (mustBe v3) [(mustBe v2, upgrade_bar_baz), (mustBe v1, upgrade_foo_bar)])"
  by (simp add: setupV3_def chain_def fun_eq_iff buildMigration_def)

lemma setupV2_chain:
  "setupV2 = buildMigration (chain (mustBe v2) [(mustBe v1, upgrade_foo_bar)])"
  by (simp add: setupV2_def chain_def fun_eq_iff buildMigration_def)

lemma setupV1_chain: "setupV1 = buildMigration (chain (mustBe v1) [])"
  by (simp add: setupV1_def chain_def fun_eq_iff buildMigration_def)

lemmas test_chain_defs =
  mustBe_def pure_fn_def v1_def v2_def v3_def upgrade_foo_bar_def upgrade_bar_baz_def
  validate_then_upgrade_def rejecting_def

lemma replay_general:
  assumes "1 \<le> pv" "pv \<le> int (length olds) + 1"
  shows "map_prod (map_sum (\<lambda>_. ()) id) id
           (migrate (buildMigration (chain cur olds)) d (Whole pv) w)
         = map_prod (map_sum (\<lambda>_. ()) id) id
             (apply_in_order
                (map (\<lambda>(v, u). validate_then_upgrade v u) (drop (nat (pv - 1)) (rev olds)) @ [cur])
                d w)"
proof -
  let ?ms = "chain cur olds []"
  have len: "int (length ?ms) = int (length olds) + 1" by (simp add: length_chain)
  have "\<not> js_gt (Whole pv) (Migrations_currentVersion ?ms)"
    using assms len by (simp add: Migrations_currentVersion_def)
  then have "map_prod (map_sum (\<lambda>_. ()) id) id (Migrations_run ?ms d (Whole pv) w)
             = map_prod (map_sum (\<lambda>_. ()) id) id (run_loop ?ms d (Whole pv) w)"
    by (rule run_forgets_thrown_value)
  also have "\<dots> = map_prod (map_sum (\<lambda>_. ()) id) id
                      (apply_in_order (drop (nat (pv - 1)) ?ms) d w)"
    using assms len by (intro run_loop_outcome) auto
  also have "drop (nat (pv - 1)) ?ms
             = map (\<lambda>(v, u). validate_then_upgrade v u) (drop (nat (pv - 1)) (rev olds)) @ [cur]"
    using assms by (simp add: chain_steps drop_map)
  finally show ?thesis by (simp only: migrate_buildMigration)
qed

text \<open>
  Claim C1. For a chain built with a current-version validator \<open>cur\<close> and the older
  versions \<open>olds\<close>, and a persisted version between 1 and the current version,
  \<open>migrate\<close> applies the stored steps in order, from the step of the persisted version
  up to the last one: each older step is "validate then upgrade", the last one is the
  current-version validator alone. \<open>migrate\<close> returns what the replay returns and throws
  when a step of the replay throws (the thrown values are not compared here), and the
  state of the callbacks is in both cases that of the replay. On the chain of three
  versions of the test suite, \<open>migrate({foo: "123"}, 1)\<close> returns \<open>{baz: "123"}\<close>.
\<close>

theorem migrate_replays_steps_in_order:
  "(\<forall>pv. 1 \<le> pv \<and> pv \<le> int (length olds) + 1 \<longrightarrow>
      map_prod (map_sum (\<lambda>_. ()) id) id
        (migrate (buildMigration (chain cur olds)) d (Whole pv) w)
      = map_prod (map_sum (\<lambda>_. ()) id) id
          (apply_in_order
             (map (\<lambda>(v, u). validate_then_upgrade v u) (drop (nat (pv - 1)) (rev olds)) @ [cur])
             d w))
   \<and> migrate setupV3 (JObj [(''foo'', JStr ''123'')]) (Whole 1) w'
       = (Inr (JObj [(''baz'', JStr ''123'')]), w')"
proof (intro conjI allI impI)
  fix pv assume "1 \<le> pv \<and> pv \<le> int (length olds) + 1"
  then show "map_prod (map_sum (\<lambda>_. ()) id) id
        (migrate (buildMigration (chain cur olds)) d (Whole pv) w)
      = map_prod (map_sum (\<lambda>_. ()) id) id
          (apply_in_order
             (map (\<lambda>(v, u). validate_then_upgrade v u) (drop (nat (pv - 1)) (rev olds)) @ [cur])
             d w)"
    by (simp add: replay_general)
next
  have "map_prod (map_sum (\<lambda>_. ()) id) id
          (migrate setupV3 (JObj [(''foo'', JStr ''123'')]) (Whole 1) w')
        = (Inr (JObj [(''baz'', JStr ''123'')]), w')"
    unfolding setupV3_chain
    by (subst replay_general) (simp_all add: test_chain_defs number_example_123 digits.simps)
  then show "migrate setupV3 (JObj [(''foo'', JStr ''123'')]) (Whole 1) w'
       = (Inr (JObj [(''baz'', JStr ''123'')]), w')"
    by (cases "migrate setupV3 (JObj [(''foo'', JStr ''123'')]) (Whole 1) w'";
        cases "fst (migrate setupV3 (JObj [(''foo'', JStr ''123'')]) (Whole 1) w')") auto
qed

theorem migrate_replays_steps_in_order_witness:
  "1 \<le> (2::int) \<and> (2::int) \<le> int (length [(mustBe v2, upgrade_bar_baz), (mustBe v1, upgrade_foo_bar :: unit MigrationFn)]) + 1
   \<and> map_prod (map_sum (\<lambda>_. ()) id) id
        (migrate (buildMigration (chain (mustBe v3) [(mustBe v2, upgrade_bar_baz), (mustBe v1, upgrade_foo_bar)]))
           (JObj [(''bar'', JNum (Whole 7))]) (Whole 2) ())
      = (Inr (JObj [(''baz'', JStr ''7'')]), ())"
proof -
  let ?olds = "[(mustBe v2, upgrade_bar_baz), (mustBe v1, upgrade_foo_bar :: unit MigrationFn)]"
  have range: "1 \<le> (2::int) \<and> (2::int) \<le> int (length ?olds) + 1" by simp
  note replay = migrate_replays_steps_in_order
      [of ?olds "mustBe v3" "JObj [(''bar'', JNum (Whole 7))]" "()" "()",
       THEN conjunct1, rule_format, OF range]
  have "apply_in_order
          (map (\<lambda>(v, u). validate_then_upgrade v u) (drop (nat (2 - 1)) (rev ?olds)) @ [mustBe v3])
          (JObj [(''bar'', JNum (Whole 7))]) ()
        = (Inr (JObj [(''baz'', JStr ''7'')]), ())"
    by (simp add: test_chain_defs digits.simps)
  with replay range show ?thesis by simp
qed

text \<open>
  Claim C2. For every payload, of any shape, and every version strictly greater than the
  current version of the chain, \<open>migrate\<close> returns the Reset Sentinel: it does not throw,
  and the state of the callbacks comes back as it was, so no validator and no upgrade
  function has been called.
\<close>

theorem newer_version_resets:
  assumes "js_gt v (version (buildMigration def))"
  shows "migrate (buildMigration def) d v w = (Inr ResetSentinel, w)"
  using assms by (simp add: migrate_buildMigration version_buildMigration Migrations_run_def)

theorem newer_version_resets_witness:
  "js_gt (Whole 3) (version (buildMigration (chain counting [(counting, counting)])))
   \<and> migrate (buildMigration (chain counting [(counting, counting)]))
         (JArr [JNull]) (Whole 3) 0 = (Inr ResetSentinel, 0)"
proof -
  have h: "js_gt (Whole 3) (version (buildMigration (chain counting [(counting, counting)])))"
    by (simp add: version_buildMigration Migrations_currentVersion_def length_chain)
  from newer_version_resets [OF h] h show ?thesis by simp
qed

lemma chain_nth_older:
  assumes "1 \<le> k" "k \<le> int (length olds)"
  shows "chain cur olds [] ! nat (k - 1)
         = validate_then_upgrade (fst (rev olds ! nat (k - 1))) (snd (rev olds ! nat (k - 1)))"
proof -
  have "nat (k - 1) < length olds" using assms by linarith
  then show ?thesis by (simp add: chain_steps nth_append case_prod_beta)
qed

lemma chain_nth_current: "chain cur olds [] ! nat (int (length olds) + 1 - 1) = cur"
  by (simp add: chain_steps nth_append)

lemma run_at_current_version:
  assumes "ms \<noteq> []"
  shows "Migrations_run ms d (Migrations_currentVersion ms) w =
     (case (last ms) d w of
        (Inr r, w') \<Rightarrow> (Inr r, w')
      | (Inl e, w') \<Rightarrow>
          (Inl (new_MigrationError e
                  \<lparr>fromVersion = Migrations_currentVersion ms,
                   toVersion = Migrations_currentVersion ms,
                   persistedData = d\<rparr>), w'))"
proof -
  let ?cv = "int (length ms)"
  have pos: "1 \<le> ?cv" using assms by (cases ms) auto
  have nth: "ms ! nat (?cv - 1) = last ms"
    using assms by (simp add: last_conv_nth nat_diff_distrib')
  show ?thesis
    using pos
    by (simp add: Migrations_run_def Migrations_currentVersion_def run_loop_in_range nth
        run_loop_past_end split: prod.splits sum.splits)
qed

lemma last_chain: "last (chain cur olds []) = cur"
  by (simp add: chain_steps)

lemma chain_nonempty: "chain cur olds [] \<noteq> []"
  by (simp add: chain_steps)

text \<open>
  Claim C4. At the current version, \<open>migrate\<close> does what one call of the
  current-version validator on the payload does: it returns what the validator returns,
  with the state of the callbacks after that one call, and throws (wrapped) when the
  validator throws. In particular a payload that the validator returns unchanged is
  returned unchanged, and no payload is returned without having passed the validator.
\<close>

theorem same_version_validates_once:
  "migrate (buildMigration (chain cur olds)) d (version (buildMigration (chain cur olds))) w =
     (case cur d w of
        (Inr r, w') \<Rightarrow> (Inr r, w')
      | (Inl e, w') \<Rightarrow>
          (Inl (new_MigrationError e
                  \<lparr>fromVersion = version (buildMigration (chain cur olds)),
                   toVersion = version (buildMigration (chain cur olds)),
                   persistedData = d\<rparr>), w'))
   \<and> (cur d w = (Inr d, w1) \<longrightarrow>
        migrate (buildMigration (chain cur olds)) d (version (buildMigration (chain cur olds))) w
          = (Inr d, w1))"
  using run_at_current_version [OF chain_nonempty, of cur olds d w]
  by (auto simp: migrate_buildMigration version_buildMigration last_chain
      split: prod.splits sum.splits)

theorem same_version_validates_once_witness:
  "counting (JStr ''kept'') 0 = (Inr (JStr ''kept''), 1)
   \<and> migrate (buildMigration (chain counting [(counting, counting)])) (JStr ''kept'')
        (version (buildMigration (chain counting [(counting, counting)]))) 0
      = (Inr (JStr ''kept''), 1)"
  using same_version_validates_once [of counting "[(counting, counting)]" "JStr ''kept''" 0 1]
  by (simp add: counting_def)

text \<open>
  Claim C5. A chain built with one \<open>currentVersion\<close> call and \<open>n\<close> \<open>olderVersion\<close> calls
  after it has version \<open>1 + n\<close>; \<open>currentVersion\<close> alone gives version 1, and each
  \<open>olderVersion\<close> call increments the version by exactly 1.
\<close>

theorem version_is_step_count:
  "version (buildMigration (chain cur olds)) = Whole (1 + int (length olds))
   \<and> version (buildMigration (CurrentVersionBuildStep_currentVersion cur)) = Whole 1
   \<and> Migrations_currentVersion (OlderVersionBuildStep_olderVersion v u ms)
       = js_inc (Migrations_currentVersion ms)"
  by (simp add: version_buildMigration Migrations_currentVersion_def length_chain
      CurrentVersionBuildStep_currentVersion_def Migrations_add_def olderVersion_step)

theorem version_is_step_count_witness:
  "version (setupV3 :: unit VersioningConfig) = Whole 3
   \<and> version (setupV1 :: unit VersioningConfig) = Whole 1
   \<and> Migrations_currentVersion
        (OlderVersionBuildStep_olderVersion (mustBe v1) upgrade_foo_bar [mustBe v2 :: unit MigrationFn])
       = Whole 2"
  using version_is_step_count [of "mustBe v3 :: unit MigrationFn"
      "[(mustBe v2, upgrade_bar_baz), (mustBe v1, upgrade_foo_bar)]"
      "mustBe v1" upgrade_foo_bar "[mustBe v2]"]
    version_is_step_count [of "mustBe v1 :: unit MigrationFn" "[]"
      "mustBe v1" upgrade_foo_bar "[mustBe v2]"]
  by (auto simp: setupV1_def setupV3_chain Migrations_currentVersion_def)

subsection \<open>The descriptor\<close>

lemma describeShape_first_branch:
  "describeShape thing =
     (if falsy thing \<or> typeof thing \<noteq> ''object'' then Inr (TypeDescription (typeof thing))
      else if isArray thing then
        (case describeShape (case thing of JArr (x # _) \<Rightarrow> x | _ \<Rightarrow> JUndefined) of
           Inl e \<Rightarrow> Inl e
         | Inr first \<Rightarrow>
             (case template_shape first of
                Inl e \<Rightarrow> Inl e
              | Inr t \<Rightarrow> Inr (TypeDescription (''Array<'' @ t @ ''>''))))
      else
        (case collect (map (\<lambda>(key, value).
                              case describeShape value of
                                Inl e \<Rightarrow> Inl e
                              | Inr d \<Rightarrow> Inr (key, d))
                         (case thing of JObj kvs \<Rightarrow> kvs | _ \<Rightarrow> [])) of
           Inl e \<Rightarrow> Inl e
         | Inr entries \<Rightarrow> Inr (ShapeDescription entries)))"
  by (cases thing) (auto split: list.splits)



lemma describeShape_array_tag:
  assumes "describeShape (JArr xs) = Inr d"
  shows "\<exists>t. d = TypeDescription t"
  using assms by (auto split: sum.splits list.splits)











lemma new_MigrationError_described:
  assumes "describeShape d = Inr shp"
  shows "new_MigrationError c \<lparr>fromVersion = fv, toVersion = tv, persistedData = d\<rparr>
         = MigrationError c
             (''Migration from '' @ NumberToString fv @ '' to '' @ NumberToString tv
              @ '' failed. Persisted '' @ take 60 (JSON_stringify shp)) shp"
  using assms
  by (simp only: new_MigrationError_def MigrationError_constructor_def Let_def
      meta.select_convs sum.case)

lemma new_MigrationError_not_described:
  assumes "describeShape d = Inl e"
  shows "new_MigrationError c \<lparr>fromVersion = fv, toVersion = tv, persistedData = d\<rparr> = e"
  using assms
  by (simp only: new_MigrationError_def MigrationError_constructor_def meta.select_convs sum.case)






subsection \<open>Failures\<close>

lemma step_throws_cases:
  assumes "1 \<le> k" and "k \<le> int (length olds) + 1"
    and "(k = int (length olds) + 1 \<and> cur s w1 = (Inl e, w2))
       \<or> (k \<le> int (length olds) \<and> fst (rev olds ! nat (k - 1)) s w1 = (Inl e, w2))
       \<or> (k \<le> int (length olds)
           \<and> (\<exists>own w'. fst (rev olds ! nat (k - 1)) s w1 = (Inr own, w')
                 \<and> snd (rev olds ! nat (k - 1)) own w' = (Inl e, w2)))"
  shows "(chain cur olds [] ! nat (k - 1)) s w1 = (Inl e, w2)"
  using assms(3)
proof (elim disjE conjE exE)
  assume "k = int (length olds) + 1" "cur s w1 = (Inl e, w2)"
  then show ?thesis using chain_nth_current [of cur olds] by simp
next
  assume "k \<le> int (length olds)" "fst (rev olds ! nat (k - 1)) s w1 = (Inl e, w2)"
  then show ?thesis
    using assms(1) by (simp add: chain_nth_older validate_then_upgrade_def)
next
  fix own w'
  assume "k \<le> int (length olds)" "fst (rev olds ! nat (k - 1)) s w1 = (Inr own, w')"
    "snd (rev olds ! nat (k - 1)) own w' = (Inl e, w2)"
  then show ?thesis
    using assms(1) by (simp add: chain_nth_older validate_then_upgrade_def)
qed

text \<open>
  How far the wrapping goes: when the step of version \<open>k\<close> throws \<open>e\<close> (the
  current-version validator, or the validator of an older version, or its upgrade function
  after the validator has accepted) and the value \<open>s\<close> it received has a descriptor,
  \<open>migrate\<close> throws a \<open>MigrationError\<close> whose cause is \<open>e\<close>.
\<close>

lemma thrown_error_is_wrapped_when_described:
  assumes "1 \<le> pv" and "pv \<le> k" and "k \<le> int (length olds) + 1"
    and "apply_in_order (steps_between (chain cur olds []) pv k) d w = (Inr s, w1)"
    and "(k = int (length olds) + 1 \<and> cur s w1 = (Inl e, w2))
       \<or> (k \<le> int (length olds) \<and> fst (rev olds ! nat (k - 1)) s w1 = (Inl e, w2))
       \<or> (k \<le> int (length olds)
           \<and> (\<exists>own w'. fst (rev olds ! nat (k - 1)) s w1 = (Inr own, w')
                 \<and> snd (rev olds ! nat (k - 1)) own w' = (Inl e, w2)))"
    and "describeShape s = Inr shp"
  shows "\<exists>msg. migrate (buildMigration (chain cur olds)) d (Whole pv) w
            = (Inl (MigrationError e msg shp), w2)"
proof -
  let ?ms = "chain cur olds []"
  have "1 \<le> k" using assms(1,2) by simp
  then have "(?ms ! nat (k - 1)) s w1 = (Inl e, w2)"
    using assms(3,5) by (intro step_throws_cases) auto
  moreover have "k \<le> int (length ?ms)" using assms(3) by (simp add: length_chain)
  ultimately have "Migrations_run ?ms d (Whole pv) w =
           (Inl (new_MigrationError e
                   \<lparr>fromVersion = Whole k, toVersion = Migrations_currentVersion ?ms,
                    persistedData = s\<rparr>), w2)"
    using assms(1,2,4) by (intro Migrations_run_throws_at) auto
  then show ?thesis
    by (simp add: migrate_buildMigration new_MigrationError_described [OF assms(6)])
qed

text \<open>
  Claim C3 does not hold of the code. The payload \<open>[{toString: 1}]\<close> at version 1 of the
  chain of three versions: the validator of version 1 throws the validation error, inside
  the loop. The \<open>catch\<close> block then evaluates \<open>new MigrationError(\<dots>)\<close>, whose
  constructor describes the payload; the descriptor of the first element has a key
  \<open>toString\<close>, the template literal cannot convert it, and the constructor throws a
  \<open>TypeError\<close>. What \<open>migrate\<close> throws is that \<open>TypeError\<close>: it is no
  \<open>MigrationError\<close>, and the validation error is lost.
\<close>

theorem thrown_error_is_lost_on_toString_key:
  "mustBe v1 (JArr [JObj [(''toString'', JNum (Whole 1))]]) ()
     = (Inl (Error ''[test] validation fail''), ())
   \<and> describeShape (JArr [JObj [(''toString'', JNum (Whole 1))]]) = Inl TypeError
   \<and> migrate setupV3 (JArr [JObj [(''toString'', JNum (Whole 1))]]) (Whole 1) ()
     = (Inl TypeError, ())"
proof (intro conjI)
  let ?d = "JArr [JObj [(''toString'', JNum (Whole 1))]]"
  let ?olds = "[(mustBe v2, upgrade_bar_baz), (mustBe v1, upgrade_foo_bar :: unit MigrationFn)]"
  let ?ms = "chain (mustBe v3) ?olds []"
  show v: "mustBe v1 ?d () = (Inl (Error ''[test] validation fail''), ())"
    by (simp add: test_chain_defs)
  show ds: "describeShape ?d = Inl TypeError" by simp
  have "(?ms ! nat (1 - 1)) ?d () = (Inl (Error ''[test] validation fail''), ())"
    by (simp add: chain_steps test_chain_defs)
  moreover have "apply_in_order (steps_between ?ms 1 1) ?d () = (Inr ?d, ())"
    by (simp add: steps_between_empty)
  moreover have "(1::int) \<le> int (length ?ms)" by (simp add: length_chain)
  ultimately have "Migrations_run ?ms ?d (Whole 1) () =
           (Inl (new_MigrationError (Error ''[test] validation fail'')
                   \<lparr>fromVersion = Whole 1, toVersion = Migrations_currentVersion ?ms,
                    persistedData = ?d\<rparr>), ())"
    by (intro Migrations_run_throws_at) auto
  then show "migrate setupV3 ?d (Whole 1) () = (Inl TypeError, ())"
    by (simp only: setupV3_chain migrate_buildMigration new_MigrationError_not_described [OF ds])
qed

text \<open>
  Claim C9. When a step throws partway through the migration and a \<open>MigrationError\<close> comes
  to be (the value \<open>s\<close> that the step received has a descriptor \<open>shp\<close>), the error is
  built from the loop's mutated variables: the \<open>fromVersion\<close> that its message prints is
  the version \<open>k\<close> of the step that threw, not the persisted version \<open>pv\<close>, and its shape
  descriptor is \<open>shp\<close>, the descriptor of the intermediate value \<open>s\<close>, not that of the
  persisted payload \<open>d\<close>.
\<close>

theorem error_reports_failing_step:
  assumes "1 \<le> pv" and "pv \<le> k" and "k \<le> int (length ms)"
    and "apply_in_order (steps_between ms pv k) d w = (Inr s, w1)"
    and "(ms ! nat (k - 1)) s w1 = (Inl e, w2)"
    and "describeShape s = Inr shp"
  shows "Migrations_run ms d (Whole pv) w =
           (Inl (MigrationError e
                   (''Migration from '' @ NumberToString (Whole k) @ '' to ''
                    @ NumberToString (Whole (int (length ms))) @ '' failed. Persisted ''
                    @ take 60 (JSON_stringify shp))
                   shp), w2)"
  using Migrations_run_throws_at [OF assms(1-5)]
  by (simp add: new_MigrationError_described [OF assms(6)] Migrations_currentVersion_def)

theorem error_reports_failing_step_witness:
  "1 \<le> (1::int) \<and> (1::int) \<le> 2 \<and> (2::int) \<le> int (length strict_chain)
   \<and> apply_in_order (steps_between strict_chain 1 2) (JObj [(''foo'', JStr ''123'')]) ()
       = (Inr (JObj [(''bar'', JNum (Whole 123))]), ())
   \<and> (strict_chain ! nat (2 - 1)) (JObj [(''bar'', JNum (Whole 123))]) () = (Inl (Error ''no v2''), ())
   \<and> describeShape (JObj [(''bar'', JNum (Whole 123))])
       = Inr (ShapeDescription [(''bar'', TypeDescription ''number'')])
   \<and> describeShape (JObj [(''foo'', JStr ''123'')])
       = Inr (ShapeDescription [(''foo'', TypeDescription ''string'')])
   \<and> Migrations_run strict_chain (JObj [(''foo'', JStr ''123'')]) (Whole 1) ()
       = (Inl (MigrationError (Error ''no v2'')
                 (''Migration from 2 to 3 failed. Persisted {'' @ [CHR 0x22] @ ''bar''
                  @ [CHR 0x22] @ '':'' @ [CHR 0x22] @ ''number'' @ [CHR 0x22] @ ''}'')
                 (ShapeDescription [(''bar'', TypeDescription ''number'')])), ())"
proof -
  let ?d = "JObj [(''foo'', JStr ''123'')]"
  let ?s = "JObj [(''bar'', JNum (Whole 123))]"
  let ?shp = "ShapeDescription [(''bar'', TypeDescription ''number'')]"
  have steps: "strict_chain = [validate_then_upgrade (mustBe v1) upgrade_foo_bar,
      validate_then_upgrade (rejecting ''no v2'') upgrade_bar_baz, mustBe v3]"
    by (simp add: strict_chain_def chain_steps)
  have h3: "(2::int) \<le> int (length strict_chain)" by (simp add: steps)
  have h4: "apply_in_order (steps_between strict_chain 1 2) ?d () = (Inr ?s, ())"
    by (simp add: steps steps_between_def test_chain_defs number_example_123)
  have h5: "(strict_chain ! nat (2 - 1)) ?s () = (Inl (Error ''no v2''), ())"
    by (simp add: steps test_chain_defs)
  have h6: "describeShape ?s = Inr ?shp" by simp
  have serialized: "take 60 (JSON_stringify ?shp)
      = ''{'' @ [CHR 0x22] @ ''bar'' @ [CHR 0x22] @ '':'' @ [CHR 0x22] @ ''number'' @ [CHR 0x22] @ ''}''"
    by code_simp
  have nums: "NumberToString (Whole 2) = ''2''" "NumberToString (Whole 3) = ''3''"
    by code_simp+
  have len: "int (length strict_chain) = 3" by (simp add: steps)
  from error_reports_failing_step [OF _ _ h3 h4 h5 h6] h3 h4 h5 h6
  show ?thesis
    by (simp only: serialized nums len) simp
qed

text \<open>
  How far the claim about versions below 1 goes: for a non-empty chain and a payload that
  has a descriptor, the lookup of the step is out of range and gives \<open>undefined\<close>, the call
  throws, and \<open>migrate\<close> throws that error wrapped in a \<open>MigrationError\<close>.
\<close>

lemma version_below_one_throws_when_described:
  assumes "ms \<noteq> []" and "v < 1" and "describeShape d = Inr shp"
  shows "entry_before ms (Whole v) = None
     \<and> Migrations_run ms d (Whole v) w =
         (Inl (MigrationError TypeError
                 (''Migration from '' @ NumberToString (Whole v) @ '' to ''
                  @ NumberToString (Whole (int (length ms))) @ '' failed. Persisted ''
                  @ take 60 (JSON_stringify shp))
                 shp), w)"
  using assms(1,2)
  by (simp add: Migrations_run_def Migrations_currentVersion_def run_loop_below_one
      new_MigrationError_described [OF assms(3)])

text \<open>
  Claim C10 does not hold of the code, by the defect shown for claim C3. The payload
  \<open>[{toString: 1}]\<close> at version 0 of the chain of three versions: the lookup of the step
  gives \<open>undefined\<close> and the call throws, inside the loop; the constructor of the
  \<open>MigrationError\<close> then throws a \<open>TypeError\<close> of its own while it describes the payload,
  and \<open>migrate\<close> throws that error: no \<open>MigrationError\<close> comes to be.
\<close>

theorem version_below_one_throws_unwrapped_on_toString_key:
  "entry_before
     (chain (mustBe v3) [(mustBe v2, upgrade_bar_baz), (mustBe v1, upgrade_foo_bar :: unit MigrationFn)] [])
     (Whole 0) = None
   \<and> describeShape (JArr [JObj [(''toString'', JNum (Whole 1))]]) = Inl TypeError
   \<and> migrate setupV3 (JArr [JObj [(''toString'', JNum (Whole 1))]]) (Whole 0) ()
     = (Inl TypeError, ())"
proof (intro conjI)
  let ?d = "JArr [JObj [(''toString'', JNum (Whole 1))]]"
  let ?ms = "chain (mustBe v3) [(mustBe v2, upgrade_bar_baz), (mustBe v1, upgrade_foo_bar :: unit MigrationFn)] []"
  show "entry_before ?ms (Whole 0) = None" by simp
  show ds: "describeShape ?d = Inl TypeError" by simp
  have "Migrations_run ?ms ?d (Whole 0) () =
         (Inl (new_MigrationError TypeError
                 \<lparr>fromVersion = Whole 0, toVersion = Migrations_currentVersion ?ms,
                  persistedData = ?d\<rparr>), ())"
    by (simp add: Migrations_run_def Migrations_currentVersion_def run_loop_below_one
        chain_nonempty length_chain del: describeShape.simps)
  then show "migrate setupV3 ?d (Whole 0) () = (Inl TypeError, ())"
    by (simp only: setupV3_chain migrate_buildMigration new_MigrationError_not_described [OF ds])
qed

subsection \<open>Hydration\<close>

lemma ensureVersionRelevance_reset:
  assumes "\<not> js_strict_eq (stored_version p) (version config)"
    and "migrate config (stored_data p) (stored_version p) (callbacks wd) = (Inr ResetSentinel, cb)"
  shows "ensureVersionRelevance config p ownerKey wd =
     (Inr JUndefined, wd\<lparr>callbacks := cb, storage := disk_clear config ownerKey (storage wd)\<rparr>)"
  using assms by (simp add: ensureVersionRelevance_def)

text \<open>
  Claim C7. During hydration, when the migration runner is called for the persisted record
  (the stored version is not the configured one) and returns the Reset Sentinel, the
  hydrate effect removes the record of that owner from the storage and dispatches nothing:
  the effect returns, the storage has lost the owner's key, and the list of dispatched
  actions is as before.
\<close>

theorem reset_clears_record_and_skips_hydration:
  assumes "owner (select config parent) = Some ownerKey"
    and "disk_get config ownerKey (storage wd) = Inr (Some p)"
    and "\<not> js_strict_eq (stored_version p) (version config)"
    and "migrate config (stored_data p) (stored_version p) (callbacks wd) = (Inr ResetSentinel, cb)"
  shows "theHydrateEffect config parent wd =
           (Inr (), wd\<lparr>callbacks := cb,
                        storage := (storage wd)(getOwnedKey config ownerKey := None)\<rparr>)
     \<and> storage (snd (theHydrateEffect config parent wd)) (getOwnedKey config ownerKey) = None
     \<and> dispatched (snd (theHydrateEffect config parent wd)) = dispatched wd"
  using assms
  by (simp add: theHydrateEffect_def ensureVersionRelevance_reset disk_clear_def)

lemma example_config_simps:
  "version (example_config (Builder b)) = Migrations_currentVersion (b [])"
  "migrate (example_config (Builder b)) = Migrations_run (b [])"
  "version (example_config (Manifest m)) = version m"
  "migrate (example_config (Manifest m)) = migrate m"
  "key (example_config act) = ''test''"
  "hydrate (example_config act) = Action"
  "owner (select (example_config act) parent) = Some ''static''"
  "json_parse (example_config act) = plain_parse"
  "json_stringify (example_config act) = plain_stringify"
  by (simp_all add: example_config_def resolveConfig_def Let_def buildMigration_def BuildResult_def)

lemma example_key: "getOwnedKey (example_config act) ''static'' = ''aRzf3d7co0u-DISK:test:static''"
  by (simp add: getOwnedKey_def namespacedKey_def NAMESPACE_def example_config_simps)

lemma example_stored_parts:
  "parseInt ''1'' = Whole 1" "parseInt ''2'' = Whole 2" "plain_parse ''7'' = Inr (JNum (Whole 7))"
  by code_simp+

lemma example_disk_get_2_7:
  "disk_get (example_config act) ''static'' [''aRzf3d7co0u-DISK:test:static'' \<mapsto> ''2|7'']
   = Inr (Some \<lparr>stored_data = JNum (Whole 7), stored_version = Whole 2\<rparr>)"
  unfolding disk_get_def example_key example_config_simps
  by (simp add: indexOf_def separator_def slice_def slice_from_def clamp_index_def
      example_stored_parts Let_def)

theorem reset_clears_record_and_skips_hydration_witness:
  "owner (select (example_config (Builder (chain counting []))) ()) = Some ''static''
   \<and> disk_get (example_config (Builder (chain counting []))) ''static''
         [''aRzf3d7co0u-DISK:test:static'' \<mapsto> ''2|7'']
       = Inr (Some \<lparr>stored_data = JNum (Whole 7), stored_version = Whole 2\<rparr>)
   \<and> \<not> js_strict_eq (Whole 2) (version (example_config (Builder (chain counting []))))
   \<and> migrate (example_config (Builder (chain counting []))) (JNum (Whole 7)) (Whole 2) 0
       = (Inr ResetSentinel, 0)
   \<and> theHydrateEffect (example_config (Builder (chain counting []))) ()
        \<lparr>storage = [''aRzf3d7co0u-DISK:test:static'' \<mapsto> ''2|7''], dispatched = [], callbacks = 0\<rparr>
       = (Inr (), \<lparr>storage = Map.empty, dispatched = [], callbacks = 0\<rparr>)"
proof -
  let ?config = "example_config (Builder (chain counting [])) :: (unit, jsval, nat) Config"
  let ?wd = "\<lparr>storage = [''aRzf3d7co0u-DISK:test:static'' \<mapsto> ''2|7''],
              dispatched = [] :: jsval list, callbacks = 0 :: nat\<rparr>"
  let ?p = "\<lparr>stored_data = JNum (Whole 7), stored_version = Whole 2\<rparr>"
  have h1: "owner (select ?config ()) = Some ''static''" by (simp add: example_config_simps)
  have h2: "disk_get ?config ''static'' (storage ?wd) = Inr (Some ?p)"
    by (simp add: example_disk_get_2_7)
  have h3: "\<not> js_strict_eq (stored_version ?p) (version ?config)"
    by (simp add: example_config_simps Migrations_currentVersion_def length_chain)
  have h4: "migrate ?config (stored_data ?p) (stored_version ?p) (callbacks ?wd) = (Inr ResetSentinel, 0)"
    by (simp add: example_config_simps Migrations_run_def Migrations_currentVersion_def length_chain)
  from reset_clears_record_and_skips_hydration [OF h1 h2 h3 h4] h1 h2 h3 h4
  show ?thesis by (simp add: example_key)
qed

text \<open>
  Claim C8. During hydration, when the stored version of the persisted record is strictly
  equal to the configured version, \<open>ensureVersionRelevance\<close> returns the persisted data as
  it is and leaves the whole state as it was: \<open>migrate\<close> is not called (the result is the
  same for every \<open>migrate\<close> function, and the state of the callbacks is untouched), so no
  validator runs, and nothing is written back to the storage.
\<close>

theorem same_version_skips_migration:
  assumes "js_strict_eq (stored_version p) (version config)"
  shows "ensureVersionRelevance config p ownerKey wd = (Inr (stored_data p), wd)
     \<and> ensureVersionRelevance (config\<lparr>migrate := m\<rparr>) p ownerKey wd = (Inr (stored_data p), wd)
     \<and> (owner (select config parent) = Some ownerKey
          \<and> disk_get config ownerKey (storage wd) = Inr (Some p) \<longrightarrow>
        storage (snd (theHydrateEffect config parent wd)) = storage wd
        \<and> callbacks (snd (theHydrateEffect config parent wd)) = callbacks wd
        \<and> theHydrateEffect (config\<lparr>migrate := m\<rparr>) parent wd = theHydrateEffect config parent wd)"
proof (intro conjI impI)
  show same: "ensureVersionRelevance config p ownerKey wd = (Inr (stored_data p), wd)"
    using assms by (simp add: ensureVersionRelevance_def)
  show upd: "ensureVersionRelevance (config\<lparr>migrate := m\<rparr>) p ownerKey wd = (Inr (stored_data p), wd)"
    using assms by (simp add: ensureVersionRelevance_def)
  assume h: "owner (select config parent) = Some ownerKey
          \<and> disk_get config ownerKey (storage wd) = Inr (Some p)"
  have get: "disk_get (config\<lparr>migrate := m\<rparr>) ownerKey (storage wd) = disk_get config ownerKey (storage wd)"
    by (simp add: disk_get_def getOwnedKey_def namespacedKey_def Let_def
        cong: option.case_cong sum.case_cong if_cong)
  show "storage (snd (theHydrateEffect config parent wd)) = storage wd"
    using h same by (simp add: theHydrateEffect_def split: actionOrTask.splits)
  show "callbacks (snd (theHydrateEffect config parent wd)) = callbacks wd"
    using h same by (simp add: theHydrateEffect_def split: actionOrTask.splits)
  show "theHydrateEffect (config\<lparr>migrate := m\<rparr>) parent wd = theHydrateEffect config parent wd"
    using h same upd get by (simp add: theHydrateEffect_def)
qed


lemma example_disk_get_1_7:
  "disk_get (example_config act) ''static'' [''aRzf3d7co0u-DISK:test:static'' \<mapsto> ''1|7'']
   = Inr (Some \<lparr>stored_data = JNum (Whole 7), stored_version = Whole 1\<rparr>)"
  unfolding disk_get_def example_key example_config_simps
  by (simp add: indexOf_def separator_def slice_def slice_from_def clamp_index_def
      example_stored_parts Let_def)

theorem same_version_skips_migration_witness:
  "js_strict_eq (Whole 1) (version (example_config (Builder (chain counting []))))
   \<and> ensureVersionRelevance (example_config (Builder (chain counting [])))
        \<lparr>stored_data = JNum (Whole 7), stored_version = Whole 1\<rparr> ''static''
        \<lparr>storage = [''aRzf3d7co0u-DISK:test:static'' \<mapsto> ''1|7''], dispatched = [], callbacks = 0\<rparr>
       = (Inr (JNum (Whole 7)),
          \<lparr>storage = [''aRzf3d7co0u-DISK:test:static'' \<mapsto> ''1|7''], dispatched = [], callbacks = 0\<rparr>)
   \<and> theHydrateEffect (example_config (Builder (chain counting []))) ()
        \<lparr>storage = [''aRzf3d7co0u-DISK:test:static'' \<mapsto> ''1|7''], dispatched = [], callbacks = 0\<rparr>
       = (Inr (),
          \<lparr>storage = [''aRzf3d7co0u-DISK:test:static'' \<mapsto> ''1|7''],
           dispatched = [JNum (Whole 7)], callbacks = 0\<rparr>)"
proof -
  let ?config = "example_config (Builder (chain counting [])) :: (unit, jsval, nat) Config"
  let ?wd = "\<lparr>storage = [''aRzf3d7co0u-DISK:test:static'' \<mapsto> ''1|7''],
              dispatched = [] :: jsval list, callbacks = 0 :: nat\<rparr>"
  let ?p = "\<lparr>stored_data = JNum (Whole 7), stored_version = Whole 1\<rparr>"
  have h: "js_strict_eq (stored_version ?p) (version ?config)"
    by (simp add: example_config_simps Migrations_currentVersion_def length_chain)
  have same: "ensureVersionRelevance ?config ?p ''static'' ?wd = (Inr (stored_data ?p), ?wd)"
    using same_version_skips_migration [OF h, of "''static''" ?wd] by blast
  have "theHydrateEffect ?config () ?wd = (Inr (), ?wd\<lparr>dispatched := [JNum (Whole 7)]\<rparr>)"
    unfolding theHydrateEffect_def
    by (simp add: example_config_simps example_disk_get_1_7 same)
  with h same show ?thesis by simp
qed

end
